theory Spec2Isabelle
  imports Main "HOL-Library.Multiset"
begin

section \<open>The statistics fetcher of github-readme-stats\<close>

text \<open>
  A shallow embedding of \<^verbatim>\<open>src/fetchers/stats-fetcher.js\<close>: the year-bucket
  aggregator \<^verbatim>\<open>totalCommitsFetcher\<close> and the profile assembler
  \<^verbatim>\<open>fetchStats\<close>.

  The counts that the GraphQL API reports are \<^verbatim>\<open>Int\<close> values; JavaScript adds
  them as doubles, which is exact integer addition far beyond any sum of 32-bit counts,
  so they are modelled as \<^typ>\<open>int\<close>. The two values of the code that are not
  integers, \<^verbatim>\<open>undefined\<close> and \<^verbatim>\<open>NaN\<close>, are kept as values of their own.
\<close>

subsection \<open>JavaScript values and errors\<close>

datatype jsval = Undefined | NaN | Num int

text \<open>\<^verbatim>\<open>a + b\<close> on values that are numbers or \<^verbatim>\<open>undefined\<close>:
  \<^verbatim>\<open>undefined\<close> converts to \<^verbatim>\<open>NaN\<close>, and \<^verbatim>\<open>NaN\<close> absorbs.\<close>

fun js_add :: "jsval \<Rightarrow> jsval \<Rightarrow> jsval" where
  "js_add (Num a) (Num b) = Num (a + b)"
| "js_add _ _ = NaN"

text \<open>The second argument of \<^verbatim>\<open>new CustomError(message, type)\<close>;
  the code uses \<^verbatim>\<open>CustomError.USER_NOT_FOUND\<close> only.\<close>

datatype custom_error_type = USER_NOT_FOUND

text \<open>What an \<^verbatim>\<open>await\<close> can throw here: the two error classes of
  \<^verbatim>\<open>common/utils\<close>, the \<^verbatim>\<open>TypeError\<close> of a property read on
  \<^verbatim>\<open>undefined\<close> or \<^verbatim>\<open>null\<close>, and whatever the retrying executor rejects
  with.\<close>

datatype js_error =
    MissingParamError "string list"
  | CustomError string custom_error_type
  | TypeError
  | RequestError string

datatype 'a outcome = Rejected js_error | Resolved 'a

subsection \<open>Requests and responses\<close>

text \<open>The \<^verbatim>\<open>variables\<close> object of a query: \<^verbatim>\<open>{ login }\<close> for the primary
  query, \<^verbatim>\<open>{ login, from_time }\<close> for a year query.\<close>

record variables =
  login :: string
  from_time :: "string option"

text \<open>The selection and arguments of \<^verbatim>\<open>repositories(...)\<close> in the primary query
  text of \<^verbatim>\<open>fetcher\<close>.\<close>

record repositories_args =
  first :: nat
  ownerAffiliations :: string
  orderBy_direction :: string
  orderBy_field :: string

definition fetcher_repositories :: repositories_args where
  "fetcher_repositories =
     \<lparr>first = 100, ownerAffiliations = ''OWNER'',
      orderBy_direction = ''DESC'', orderBy_field = ''STARGAZERS''\<rparr>"

text \<open>One element of \<^verbatim>\<open>errors\<close>; \<^verbatim>\<open>message\<close> may be missing.\<close>

record gql_error =
  message :: "string option"

text \<open>The body of a response (\<^verbatim>\<open>res.data\<close>): \<^verbatim>\<open>data\<close> and \<^verbatim>\<open>errors\<close>
  may each be absent, and \<^verbatim>\<open>data.user\<close> is nullable.\<close>

datatype 'u gql_data = GqlData (user: "'u option")

record 'u response =
  data :: "'u gql_data option"
  errors :: "gql_error list option"

text \<open>\<^verbatim>\<open>user.contributionsCollection\<close> of a year query.\<close>

record year_contributions =
  year_totalCommitContributions :: int
  year_restrictedContributionsCount :: int

text \<open>\<^verbatim>\<open>user\<close> of the primary query. A field \<^verbatim>\<open>x_totalCount\<close> is
  \<^verbatim>\<open>x.totalCount\<close>; a repository node is its \<^verbatim>\<open>stargazers.totalCount\<close>.\<close>

record repository_node =
  stargazers_totalCount :: int

record user_info =
  name :: "string option"
  user_login :: string
  totalCommitContributions :: int
  restrictedContributionsCount :: int
  contributionYears :: "int list"
  repositoriesContributedTo_totalCount :: int
  pullRequests_totalCount :: int
  openIssues_totalCount :: int
  closedIssues_totalCount :: int
  followers_totalCount :: int
  repositories_totalCount :: int
  repositories_nodes :: "repository_node list"

subsection \<open>Effects\<close>

text \<open>A run is observed through the calls it makes, in order: the two kinds of request
  handed to the retrying executor, the logger calls, and the call of the aggregator.\<close>

datatype event =
    Request_fetcher repositories_args variables
  | Request_fetchYearCommits variables
  | Logger_log string
  | Logger_log_err js_error
  | Logger_error "gql_error list"
  | Call_totalCommitsFetcher string "int list"

fun is_primary_request :: "event \<Rightarrow> bool" where
  "is_primary_request (Request_fetcher _ _) = True"
| "is_primary_request _ = False"

text \<open>The collaborators that the module imports: the test of the pattern of
  \<^verbatim>\<open>github-username-regex\<close>, the retrying executor applied to each of the two
  fetchers, and \<^verbatim>\<open>calculateRank\<close>, whose arguments are \<^verbatim>\<open>totalCommits\<close>,
  \<^verbatim>\<open>totalRepos\<close>, \<^verbatim>\<open>followers\<close>, \<^verbatim>\<open>contributions\<close>, \<^verbatim>\<open>stargazers\<close>,
  \<^verbatim>\<open>prs\<close> and \<^verbatim>\<open>issues\<close>.\<close>

record 'r env =
  githubUsernameRegex_test :: "string \<Rightarrow> bool"
  retryer_fetcher :: "variables \<Rightarrow> user_info response outcome"
  retryer_fetchYearCommits :: "variables \<Rightarrow> year_contributions response outcome"
  calculateRank :: "jsval \<Rightarrow> int \<Rightarrow> int \<Rightarrow> int \<Rightarrow> int \<Rightarrow> int \<Rightarrow> int \<Rightarrow> 'r"

subsection \<open>Template literals\<close>

text \<open>\<^verbatim>\<open>`${year}`\<close> for an integer below \<^verbatim>\<open>1e21\<close> in magnitude: its decimal
  digits, with a minus sign when negative.\<close>

fun digits :: "nat \<Rightarrow> string" where
  "digits n =
     (if n < 10 then [char_of (48 + n)]
      else digits (n div 10) @ [char_of (48 + n mod 10)])"

definition number_to_string :: "int \<Rightarrow> string" where
  "number_to_string i = (if i < 0 then CHR ''-'' # digits (nat (- i)) else digits (nat i))"

subsection \<open>totalCommitsFetcher\<close>

text \<open>What the function returns: the bare number of line 88, or the object of lines
  105 and 113.\<close>

datatype commits_result =
    JsNumber int
  | CommitAggregate (totalPublicCommits: int) (totalPrivateCommits: int)

definition year_variables :: "string \<Rightarrow> int \<Rightarrow> variables" where
  "year_variables username year =
     \<lparr>login = username,
      from_time = Some (number_to_string year @ ''-01-01T00:00:00.000Z'')\<rparr>"

text \<open>The callback of \<^verbatim>\<open>map\<close> from its \<^verbatim>\<open>await\<close> on: a rejection is thrown
  on, the property chain \<^verbatim>\<open>res.data.data.user.contributionsCollection\<close> throws a
  \<^verbatim>\<open>TypeError\<close> where \<^verbatim>\<open>data\<close> is absent or \<^verbatim>\<open>user\<close> is null, and otherwise
  the two counters grow.\<close>

fun add_year ::
  "year_contributions response outcome \<Rightarrow> int \<times> int \<Rightarrow> js_error + int \<times> int" where
  "add_year (Rejected e) acc = Inl e"
| "add_year (Resolved res) (pub, priv) =
     (case data res of
        None \<Rightarrow> Inl TypeError
      | Some d \<Rightarrow>
          (case user d of
             None \<Rightarrow> Inl TypeError
           | Some c \<Rightarrow>
               Inr (pub + year_totalCommitContributions c,
                    priv + year_restrictedContributionsCount c)))"

text \<open>\<^verbatim>\<open>await Promise.all\<close> over the callbacks, the responses taken in the order
  of the list: the first callback that throws rejects the whole.\<close>

fun promise_all ::
  "year_contributions response outcome list \<Rightarrow> int \<times> int \<Rightarrow> js_error + int \<times> int" where
  "promise_all [] acc = Inr acc"
| "promise_all (r # rs) acc =
     (case add_year r acc of
        Inl e \<Rightarrow> Inl e
      | Inr acc' \<Rightarrow> promise_all rs acc')"

text \<open>Every callback runs up to its \<^verbatim>\<open>await\<close> inside \<^verbatim>\<open>map\<close>, so all the
  requests are issued, in list order, before any response is looked at.\<close>

definition totalCommitsFetcher ::
  "'r env \<Rightarrow> string \<Rightarrow> int list \<Rightarrow> commits_result \<times> event list" where
  "totalCommitsFetcher e username years =
     (if \<not> githubUsernameRegex_test e username
      then (JsNumber 0, [Logger_log ''Invalid username''])
      else
        let vars = map (year_variables username) years;
            issued = map Request_fetchYearCommits vars
        in case promise_all (map (retryer_fetchYearCommits e) vars) (0, 0) of
             Inr (pub, priv) \<Rightarrow> (CommitAggregate pub priv, issued)
           | Inl err \<Rightarrow> (CommitAggregate 0 0, issued @ [Logger_log_err err]))"

subsection \<open>fetchStats\<close>

text \<open>The object \<^verbatim>\<open>stats\<close>; its field \<^verbatim>\<open>name\<close> is \<open>stats_name\<close> here, apart
  from the \<^verbatim>\<open>name\<close> of the user. The type of \<^verbatim>\<open>rank\<close> is left to
  \<^verbatim>\<open>calculateRank\<close>.\<close>

record 'r stats =
  stats_name :: string
  totalPRs :: int
  totalCommits :: jsval
  totalIssues :: int
  totalStars :: int
  contributedTo :: int
  rank :: 'r

text \<open>\<^verbatim>\<open>const { totalPublicCommits, totalPrivateCommits } = ...\<close>: destructuring
  a number reads two properties that a number does not have.\<close>

fun destructure :: "commits_result \<Rightarrow> jsval \<times> jsval" where
  "destructure (JsNumber n) = (Undefined, Undefined)"
| "destructure (CommitAggregate pub priv) = (Num pub, Num priv)"

text \<open>\<^verbatim>\<open>a || b\<close> on strings that may be missing: the empty string is falsy.\<close>

fun or_else :: "string option \<Rightarrow> string \<Rightarrow> string" where
  "or_else None d = d"
| "or_else (Some s) d = (if s = [] then d else s)"

text \<open>Lines 153 to 193: the record assembled from the \<^verbatim>\<open>user\<close> of the primary
  response, after the events \<open>tr\<close> of the run so far.\<close>

definition assemble ::
  "'r env \<Rightarrow> string \<Rightarrow> user_info \<Rightarrow> bool \<Rightarrow> bool \<Rightarrow> event list \<Rightarrow>
     (js_error + 'r stats) \<times> event list" where
  "assemble e username u count_private include_all_commits tr =
     (let name' = or_else (name u) (user_login u);
          issues = openIssues_totalCount u + closedIssues_totalCount u;
          commits = Num (totalCommitContributions u);
          privateCommits = Num (restrictedContributionsCount u);
          (commits, privateCommits, tr) =
             (if include_all_commits
              then
                let (ret, evs) = totalCommitsFetcher e username (contributionYears u);
                    (totalPublicCommits, totalPrivateCommits) = destructure ret
                in (totalPublicCommits, totalPrivateCommits,
                    tr @ [Call_totalCommitsFetcher username (contributionYears u)] @ evs)
              else (commits, privateCommits, tr));
          commits = (if count_private then js_add commits privateCommits else commits);
          prs = pullRequests_totalCount u;
          contributed = repositoriesContributedTo_totalCount u;
          stars = foldl (\<lambda>prev curr. prev + stargazers_totalCount curr) 0
                    (repositories_nodes u)
      in (Inr \<lparr>stats_name = name', totalPRs = prs, totalCommits = commits,
               totalIssues = issues, totalStars = stars, contributedTo = contributed,
               rank = calculateRank e commits (repositories_totalCount u)
                        (followers_totalCount u) contributed stars prs issues\<rparr>,
          tr))"

text \<open>The whole function. \<^verbatim>\<open>!username\<close> holds for a missing argument and for the
  empty string. \<^verbatim>\<open>res.data.errors\<close> is truthy for every array, the empty one too,
  where \<^verbatim>\<open>errors[0].message\<close> then throws.\<close>

definition fetchStats ::
  "'r env \<Rightarrow> string option \<Rightarrow> bool \<Rightarrow> bool \<Rightarrow> (js_error + 'r stats) \<times> event list" where
  "fetchStats e username count_private include_all_commits =
     (case username of
        None \<Rightarrow> (Inl (MissingParamError [''username'']), [])
      | Some uname \<Rightarrow>
          (if uname = [] then (Inl (MissingParamError [''username'']), [])
           else
            let vars = \<lparr>login = uname, from_time = None\<rparr>;
                tr = [Request_fetcher fetcher_repositories vars]
            in case retryer_fetcher e vars of
                 Rejected err \<Rightarrow> (Inl err, tr)
               | Resolved res \<Rightarrow>
                   (case errors res of
                      Some errs \<Rightarrow>
                        (case errs of
                           [] \<Rightarrow> (Inl TypeError, tr @ [Logger_error errs])
                         | err # _ \<Rightarrow>
                             (Inl (CustomError
                                     (or_else (message err) ''Could not fetch user'')
                                     USER_NOT_FOUND),
                              tr @ [Logger_error errs]))
                    | None \<Rightarrow>
                        (case data res of
                           None \<Rightarrow> (Inl TypeError, tr)
                         | Some d \<Rightarrow>
                             (case user d of
                                None \<Rightarrow> (Inl TypeError, tr)
                              | Some u \<Rightarrow>
                                  assemble e uname u count_private
                                    include_all_commits tr)))))"

subsection \<open>What a run reports\<close>

text \<open>A year query fails when its promise is rejected or when the response lacks the
  path \<^verbatim>\<open>data.user\<close>: these are the cases in which the callback throws.\<close>

definition year_failed :: "year_contributions response outcome \<Rightarrow> bool" where
  "year_failed r =
     (case r of
        Rejected _ \<Rightarrow> True
      | Resolved res \<Rightarrow> (case data res of None \<Rightarrow> True | Some d \<Rightarrow> user d = None))"

text \<open>The public and private counts that a year's response carries.\<close>

definition year_counts :: "year_contributions response outcome \<Rightarrow> int \<times> int" where
  "year_counts r =
     (case r of
        Rejected _ \<Rightarrow> (0, 0)
      | Resolved res \<Rightarrow>
          (case data res of
             None \<Rightarrow> (0, 0)
           | Some d \<Rightarrow>
               (case user d of
                  None \<Rightarrow> (0, 0)
                | Some c \<Rightarrow> (year_totalCommitContributions c,
                             year_restrictedContributionsCount c))))"

text \<open>The responses to the year queries of one call of the aggregator.\<close>

definition responses ::
  "'r env \<Rightarrow> string \<Rightarrow> int list \<Rightarrow> year_contributions response outcome list" where
  "responses e username years =
     map (retryer_fetchYearCommits e) (map (year_variables username) years)"

text \<open>The \<^verbatim>\<open>user\<close> that the primary query reports when it resolves without
  \<^verbatim>\<open>errors\<close>.\<close>

definition primary_user :: "'r env \<Rightarrow> string \<Rightarrow> user_info option" where
  "primary_user e uname =
     (case retryer_fetcher e \<lparr>login = uname, from_time = None\<rparr> of
        Rejected _ \<Rightarrow> None
      | Resolved res \<Rightarrow>
          (case errors res of
             Some _ \<Rightarrow> None
           | None \<Rightarrow> (case data res of None \<Rightarrow> None | Some d \<Rightarrow> user d)))"

text \<open>\<^verbatim>\<open>Promise.all\<close> with the responses arriving in any order: at each step one
  of the pending callbacks resumes; it either throws, which settles the whole, or adds
  its counts. \<^const>\<open>promise_all\<close> is the run in which they arrive in list order.\<close>

inductive settles ::
  "year_contributions response outcome list \<Rightarrow> int \<times> int \<Rightarrow> js_error + int \<times> int \<Rightarrow> bool"
  where
    all_settled: "settles [] acc (Inr acc)"
  | thrown: "i < length pending \<Longrightarrow> add_year (pending ! i) acc = Inl err \<Longrightarrow>
       settles pending acc (Inl err)"
  | added: "i < length pending \<Longrightarrow> add_year (pending ! i) acc = Inr acc' \<Longrightarrow>
       settles (take i pending @ drop (Suc i) pending) acc' r \<Longrightarrow> settles pending acc r"

subsection \<open>A concrete environment\<close>

text \<open>The pattern of the package \<^verbatim>\<open>github-username-regex\<close>: an ASCII letter or
  digit, then at most 38 further characters, each a letter or digit, or a hyphen that a
  letter or digit follows; matched case-insensitively against the whole string.\<close>

definition alnum :: "char \<Rightarrow> bool" where
  "alnum c =
     (let n = (of_char c :: nat)
      in (48 \<le> n \<and> n \<le> 57) \<or> (65 \<le> n \<and> n \<le> 90) \<or> (97 \<le> n \<and> n \<le> 122))"

fun handle_tail :: "string \<Rightarrow> bool" where
  "handle_tail [] = True"
| "handle_tail (c # cs) =
     (if alnum c then handle_tail cs
      else c = CHR ''-'' \<and> (case cs of [] \<Rightarrow> False | d # _ \<Rightarrow> alnum d) \<and> handle_tail cs)"

definition github_username_regex :: "string \<Rightarrow> bool" where
  "github_username_regex s =
     (case s of [] \<Rightarrow> False | c # cs \<Rightarrow> alnum c \<and> length cs \<le> 38 \<and> handle_tail cs)"

text \<open>An executor for the year queries that knows three years: two answer with counts,
  the third answers with an error payload and no \<^verbatim>\<open>data\<close>; any other request is
  rejected.\<close>

definition year_body :: "int \<Rightarrow> int \<Rightarrow> year_contributions response" where
  "year_body pub priv =
     \<lparr>data = Some (GqlData (Some \<lparr>year_totalCommitContributions = pub,
                                  year_restrictedContributionsCount = priv\<rparr>)),
      errors = None\<rparr>"

definition sample_years :: "variables \<Rightarrow> year_contributions response outcome" where
  "sample_years v =
     (if from_time v = Some ''2019-01-01T00:00:00.000Z'' then Resolved (year_body 70 15)
      else if from_time v = Some ''2020-01-01T00:00:00.000Z'' then Resolved (year_body 30 5)
      else if from_time v = Some ''2021-01-01T00:00:00.000Z''
        then Resolved \<lparr>data = None, errors = Some [\<lparr>message = Some ''rate limited''\<rparr>]\<rparr>
      else Rejected (RequestError ''timeout''))"

definition sample_user :: user_info where
  "sample_user =
     \<lparr>name = None, user_login = ''octocat'',
      totalCommitContributions = 10, restrictedContributionsCount = 5,
      contributionYears = [2020, 2019],
      repositoriesContributedTo_totalCount = 4, pullRequests_totalCount = 6,
      openIssues_totalCount = 3, closedIssues_totalCount = 7,
      followers_totalCount = 9, repositories_totalCount = 3,
      repositories_nodes =
        [\<lparr>stargazers_totalCount = 5\<rparr>, \<lparr>stargazers_totalCount = 0\<rparr>,
         \<lparr>stargazers_totalCount = 12\<rparr>]\<rparr>"

text \<open>A primary executor that knows the account \<^verbatim>\<open>octocat\<close>, answers for
  \<^verbatim>\<open>ghost\<close> with an error payload, and answers for any other login with the
  same profile (as a mock does).\<close>

definition sample_primary :: "variables \<Rightarrow> user_info response outcome" where
  "sample_primary v =
     (if login v = ''ghost''
      then Resolved \<lparr>data = None,
             errors = Some [\<lparr>message = Some ''Could not resolve to a User''\<rparr>]\<rparr>
      else Resolved \<lparr>data = Some (GqlData (Some sample_user)), errors = None\<rparr>)"

text \<open>The rank is opaque here: the sample \<^verbatim>\<open>calculateRank\<close> hands back the commit
  total it was given.\<close>

definition sample_env :: "jsval env" where
  "sample_env =
     \<lparr>githubUsernameRegex_test = github_username_regex,
      retryer_fetcher = sample_primary,
      retryer_fetchYearCommits = sample_years,
      calculateRank = (\<lambda>commits repos followers contributions stargazers prs issues. commits)\<rparr>"

section \<open>Properties\<close>

declare digits.simps [simp del]

subsection \<open>The callback and the merge\<close>

lemma add_year_failed: "year_failed r \<Longrightarrow> \<exists>err. add_year r acc = Inl err"
  by (cases r; cases acc) (auto simp: year_failed_def split: option.splits)

lemma add_year_counts:
  "\<not> year_failed r \<Longrightarrow>
     add_year r acc = Inr (fst acc + fst (year_counts r), snd acc + snd (year_counts r))"
  by (cases r; cases acc) (auto simp: year_failed_def year_counts_def split: option.splits)

lemma add_year_Inl: "add_year r acc = Inl err \<Longrightarrow> year_failed r"
  using add_year_counts [of r acc] by auto

lemma add_year_Inr: "add_year r acc = Inr acc' \<Longrightarrow> \<not> year_failed r"
  using add_year_failed [of r acc] by auto

lemma promise_all_failed:
  "\<exists>r \<in> set rs. year_failed r \<Longrightarrow> \<exists>err. promise_all rs acc = Inl err"
proof (induction rs arbitrary: acc)
  case Nil
  then show ?case by simp
next
  case (Cons r rs)
  show ?case
  proof (cases "year_failed r")
    case True
    then obtain err where "add_year r acc = Inl err"
      using add_year_failed by blast
    then show ?thesis by simp
  next
    case False
    with Cons.prems have "\<exists>x \<in> set rs. year_failed x" by auto
    with Cons.IH False show ?thesis by (simp add: add_year_counts)
  qed
qed

lemma promise_all_sum:
  "\<forall>r \<in> set rs. \<not> year_failed r \<Longrightarrow>
     promise_all rs acc =
       Inr (fst acc + sum_list (map (fst \<circ> year_counts) rs),
            snd acc + sum_list (map (snd \<circ> year_counts) rs))"
  by (induction rs arbitrary: acc) (simp_all add: add_year_counts algebra_simps)

subsection \<open>The three ways out of totalCommitsFetcher\<close>

lemma totalCommitsFetcher_invalid:
  "\<not> githubUsernameRegex_test e username \<Longrightarrow>
     totalCommitsFetcher e username years = (JsNumber 0, [Logger_log ''Invalid username''])"
  by (simp add: totalCommitsFetcher_def)

lemma totalCommitsFetcher_failed:
  assumes "githubUsernameRegex_test e username"
    and "\<exists>r \<in> set (responses e username years). year_failed r"
  shows "fst (totalCommitsFetcher e username years) = CommitAggregate 0 0"
proof -
  obtain err where "promise_all (responses e username years) (0, 0) = Inl err"
    using promise_all_failed [OF assms(2)] by blast
  with assms(1) show ?thesis
    by (simp add: totalCommitsFetcher_def responses_def Let_def)
qed

lemma totalCommitsFetcher_sum:
  assumes "githubUsernameRegex_test e username"
    and "\<forall>r \<in> set (responses e username years). \<not> year_failed r"
  shows "totalCommitsFetcher e username years =
           (CommitAggregate
              (sum_list (map (fst \<circ> year_counts) (responses e username years)))
              (sum_list (map (snd \<circ> year_counts) (responses e username years))),
            map Request_fetchYearCommits (map (year_variables username) years))"
  using assms(1) promise_all_sum [OF assms(2), of "(0, 0)"]
  by (simp add: totalCommitsFetcher_def responses_def Let_def)

lemma mset_responses:
  "mset years' = mset years \<Longrightarrow>
     mset (responses e username years') = mset (responses e username years)"
  unfolding responses_def by (metis mset_map)

lemma sum_list_mset_cong:
  fixes f :: "'a \<Rightarrow> int"
  shows "mset xs = mset ys \<Longrightarrow> sum_list (map f xs) = sum_list (map f ys)"
  by (metis mset_map sum_mset_sum_list)

subsection \<open>Any arrival order\<close>

lemma settles_promise_all: "settles rs acc (promise_all rs acc)"
proof (induction rs arbitrary: acc)
  case Nil
  show ?case by (simp add: all_settled)
next
  case (Cons r rs)
  show ?case
  proof (cases "add_year r acc")
    case (Inl err)
    then have "add_year ((r # rs) ! 0) acc = Inl err" by simp
    then have "settles (r # rs) acc (Inl err)"
      by (rule thrown [rotated]) simp
    with Inl show ?thesis by simp
  next
    case (Inr acc')
    have "settles (take 0 (r # rs) @ drop (Suc 0) (r # rs)) acc' (promise_all rs acc')"
      using Cons.IH [of acc'] by simp
    then have "settles (r # rs) acc (promise_all rs acc')"
      using Inr by (intro added [of 0 "r # rs" acc acc']) simp_all
    with Inr show ?thesis by simp
  qed
qed

lemma set_remove_nth:
  "i < length xs \<Longrightarrow> set xs = insert (xs ! i) (set (take i xs @ drop (Suc i) xs))"
proof -
  assume "i < length xs"
  then have "xs = take i xs @ xs ! i # drop (Suc i) xs"
    by (rule id_take_nth_drop)
  then have "set xs = set (take i xs @ xs ! i # drop (Suc i) xs)"
    by simp
  then show ?thesis by simp
qed

lemma sum_list_remove_nth:
  fixes f :: "'a \<Rightarrow> int"
  assumes "i < length xs"
  shows "sum_list (map f xs) = f (xs ! i) + sum_list (map f (take i xs @ drop (Suc i) xs))"
proof -
  have "xs = take i xs @ xs ! i # drop (Suc i) xs"
    using assms by (rule id_take_nth_drop)
  then have "sum_list (map f xs) = sum_list (map f (take i xs @ xs ! i # drop (Suc i) xs))"
    by simp
  then show ?thesis by simp
qed

lemma settles_outcome:
  "settles rs acc r \<Longrightarrow>
     (if \<exists>x \<in> set rs. year_failed x then \<exists>err. r = Inl err
      else r = Inr (fst acc + sum_list (map (fst \<circ> year_counts) rs),
                    snd acc + sum_list (map (snd \<circ> year_counts) rs)))"
proof (induction rule: settles.induct)
  case (all_settled acc)
  show ?case by simp
next
  case (thrown i pending acc err)
  then have "year_failed (pending ! i)"
    using add_year_Inl by blast
  with thrown(1) have "\<exists>x \<in> set pending. year_failed x"
    using nth_mem by blast
  then show ?case by simp
next
  case (added i pending acc acc' r)
  let ?rest = "take i pending @ drop (Suc i) pending"
  have ok: "\<not> year_failed (pending ! i)"
    using added(2) by (rule add_year_Inr)
  have acc': "acc' = (fst acc + fst (year_counts (pending ! i)),
                      snd acc + snd (year_counts (pending ! i)))"
    using added(2) add_year_counts [OF ok, of acc] by simp
  have sets: "set pending = insert (pending ! i) (set ?rest)"
    using added(1) by (rule set_remove_nth)
  show ?case
  proof (cases "\<exists>x \<in> set pending. year_failed x")
    case True
    with sets ok have "\<exists>x \<in> set ?rest. year_failed x" by auto
    with added.IH True show ?thesis by simp
  next
    case False
    with sets have "\<not> (\<exists>x \<in> set ?rest. year_failed x)" by auto
    with added.IH have "r = Inr (fst acc' + sum_list (map (fst \<circ> year_counts) ?rest),
                    snd acc' + sum_list (map (snd \<circ> year_counts) ?rest))"
      by simp
    moreover have "sum_list (map (fst \<circ> year_counts) pending) =
        (fst \<circ> year_counts) (pending ! i) + sum_list (map (fst \<circ> year_counts) ?rest)"
      using added(1) by (rule sum_list_remove_nth)
    moreover have "sum_list (map (snd \<circ> year_counts) pending) =
        (snd \<circ> year_counts) (pending ! i) + sum_list (map (snd \<circ> year_counts) ?rest)"
      using added(1) by (rule sum_list_remove_nth)
    ultimately show ?thesis
      using False acc' by simp
  qed
qed

text \<open>Whatever the order in which the responses arrive, the value returned is the one
  that \<^const>\<open>totalCommitsFetcher\<close> computes.\<close>

lemma totalCommitsFetcher_any_arrival:
  assumes "githubUsernameRegex_test e username"
    and "settles (responses e username years) (0, 0) r"
  shows "fst (totalCommitsFetcher e username years) =
           (case r of Inr (pub, priv) \<Rightarrow> CommitAggregate pub priv
                    | Inl err \<Rightarrow> CommitAggregate 0 0)"
proof (cases "\<exists>x \<in> set (responses e username years). year_failed x")
  case True
  then obtain err where "r = Inl err"
    using settles_outcome [OF assms(2)] by auto
  then show ?thesis
    using assms(1) True by (simp add: totalCommitsFetcher_failed)
next
  case False
  then have "r = Inr (sum_list (map (fst \<circ> year_counts) (responses e username years)),
                    sum_list (map (snd \<circ> year_counts) (responses e username years)))"
    using settles_outcome [OF assms(2)] by simp
  then show ?thesis
    using assms(1) False by (simp add: totalCommitsFetcher_sum)
qed

subsection \<open>The paths through fetchStats\<close>

lemma totalCommitsFetcher_requests:
  "filter is_primary_request (snd (totalCommitsFetcher e username years)) = []"
  by (simp add: totalCommitsFetcher_def Let_def filter_empty_conv image_iff
      split: sum.splits prod.splits)

lemma foldl_stars:
  "foldl (\<lambda>prev curr. prev + stargazers_totalCount curr) a nodes =
     a + sum_list (map stargazers_totalCount nodes)"
  by (induction nodes arbitrary: a) simp_all

lemma fetchStats_assemble:
  "uname \<noteq> [] \<Longrightarrow> primary_user e uname = Some u \<Longrightarrow>
     fetchStats e (Some uname) count_private include_all_commits =
       assemble e uname u count_private include_all_commits
         [Request_fetcher fetcher_repositories \<lparr>login = uname, from_time = None\<rparr>]"
  by (auto simp: fetchStats_def primary_user_def Let_def
      split: outcome.splits option.splits)

lemma fetchStats_falsy_username:
  "username = None \<or> username = Some [] \<Longrightarrow>
     fetchStats e username count_private include_all_commits =
       (Inl (MissingParamError [''username'']), [])"
  by (auto simp: fetchStats_def)

lemma fetchStats_no_user:
  "primary_user e uname = None \<Longrightarrow>
     \<exists>err. fst (fetchStats e (Some uname) count_private include_all_commits) = Inl err"
  by (auto simp: fetchStats_def primary_user_def Let_def
      split: outcome.splits option.splits list.splits)

lemma fetchStats_returns:
  assumes "fst (fetchStats e username count_private include_all_commits) = Inr s"
  shows "\<exists>uname u. username = Some uname \<and> uname \<noteq> [] \<and> primary_user e uname = Some u"
proof -
  have "\<not> (username = None \<or> username = Some [])"
  proof
    assume "username = None \<or> username = Some []"
    then have "fetchStats e username count_private include_all_commits =
        (Inl (MissingParamError [''username'']), [])"
      by (rule fetchStats_falsy_username)
    with assms show False by simp
  qed
  then obtain uname where uname: "username = Some uname" "uname \<noteq> []"
    by auto
  have "primary_user e uname \<noteq> None"
    using assms uname(1) fetchStats_no_user [of e uname count_private include_all_commits]
    by auto
  with uname show ?thesis by auto
qed

lemma assemble_returns: "\<exists>s. fst (assemble e uname u count_private include_all_commits tr) = Inr s"
  by (simp add: assemble_def Let_def split: prod.splits)

lemma assemble_totalIssues:
  "fst (assemble e uname u count_private include_all_commits tr) = Inr s \<Longrightarrow>
     totalIssues s = openIssues_totalCount u + closedIssues_totalCount u"
  by (auto simp: assemble_def Let_def split: prod.splits)

lemma assemble_totalStars:
  "fst (assemble e uname u count_private include_all_commits tr) = Inr s \<Longrightarrow>
     totalStars s = sum_list (map stargazers_totalCount (repositories_nodes u))"
  by (auto simp: assemble_def Let_def foldl_stars split: prod.splits)

lemma assemble_totalCommits_primary:
  "fst (assemble e uname u count_private False tr) = Inr s \<Longrightarrow>
     totalCommits s =
       (if count_private
        then Num (totalCommitContributions u + restrictedContributionsCount u)
        else Num (totalCommitContributions u))"
  by (auto simp: assemble_def Let_def split: prod.splits)

lemma assemble_totalCommits_all:
  "fst (assemble e uname u count_private True tr) = Inr s \<Longrightarrow>
     totalCommits s =
       (let (pub, priv) = destructure (fst (totalCommitsFetcher e uname (contributionYears u)))
        in if count_private then js_add pub priv else pub)"
  by (auto simp: assemble_def Let_def split: prod.splits)

lemma assemble_events:
  "snd (assemble e uname u count_private include_all_commits tr) =
     (if include_all_commits
      then tr @ Call_totalCommitsFetcher uname (contributionYears u) #
             snd (totalCommitsFetcher e uname (contributionYears u))
      else tr)"
  by (auto simp: assemble_def Let_def split: prod.splits)

subsection \<open>The sample runs\<close>

lemma sample_primary_user: "primary_user sample_env ''octocat'' = Some sample_user"
  by (simp add: primary_user_def sample_env_def sample_primary_def)

lemma sample_handle: "githubUsernameRegex_test sample_env ''octocat''"
  by code_simp

lemma sample_malformed_handle: "\<not> githubUsernameRegex_test sample_env ''-bad''"
  by code_simp

lemma sample_responses:
  "responses sample_env ''octocat'' [2020, 2019] =
     [Resolved (year_body 30 5), Resolved (year_body 70 15)]"
  by code_simp

text \<open>The year 2019 answers before the year 2020, which was asked first.\<close>

lemma sample_arrival:
  "settles (responses sample_env ''octocat'' [2020, 2019]) (0, 0) (Inr (100, 20))"
proof -
  let ?r20 = "Resolved (year_body 30 5)" and ?r19 = "Resolved (year_body 70 15)"
  have a1: "add_year ([?r20, ?r19] ! 1) (0, 0) = Inr (70, 15)"
    by (simp add: year_body_def)
  have a2: "add_year ([?r20] ! 0) (70, 15) = Inr (100, 20)"
    by (simp add: year_body_def)
  have "settles [] (100, 20) (Inr (100, 20))"
    by (rule all_settled)
  then have "settles (take 0 [?r20] @ drop (Suc 0) [?r20]) (100, 20) (Inr (100, 20))"
    by simp
  with a2 have "settles [?r20] (70, 15) (Inr (100, 20))"
    by (intro added [of 0 "[?r20]" "(70, 15)" "(100, 20)"]) simp_all
  then have "settles (take 1 [?r20, ?r19] @ drop (Suc 1) [?r20, ?r19]) (70, 15)
      (Inr (100, 20))"
    by simp
  with a1 have "settles [?r20, ?r19] (0, 0) (Inr (100, 20))"
    by (intro added [of 1 "[?r20, ?r19]" "(0, 0)" "(70, 15)"]) simp_all
  then show ?thesis
    by (simp add: sample_responses)
qed

subsection \<open>Claims\<close>

text \<open>
  C1. For an account identifier that fails the test of the handle pattern, the
  aggregator is said to return the zeroed object
  \<^verbatim>\<open>{totalPublicCommits: 0, totalPrivateCommits: 0}\<close> and to issue no network call.
  On the handle \<^verbatim>\<open>-bad\<close> the code issues no request, as claimed, but what it
  returns is the bare number \<^verbatim>\<open>0\<close> of line 88, not the object that the
  \<^verbatim>\<open>catch\<close> branch of line 113 returns and that the caller destructures.
\<close>

theorem totalCommitsFetcher_malformed_handle:
  "\<not> githubUsernameRegex_test sample_env ''-bad'' \<and>
   totalCommitsFetcher sample_env ''-bad'' [2019, 2020] =
     (JsNumber 0, [Logger_log ''Invalid username'']) \<and>
   fst (totalCommitsFetcher sample_env ''-bad'' [2019, 2020]) \<noteq> CommitAggregate 0 0"
  by code_simp

text \<open>
  C2. Let the primary query report the public commit total \<open>P\<close> and the restricted
  commit total \<open>R\<close>. Without \<^verbatim>\<open>include_all_commits\<close>, \<^verbatim>\<open>totalCommits\<close> is \<open>P\<close>,
  and \<open>P + R\<close> with \<^verbatim>\<open>count_private\<close>. With \<^verbatim>\<open>include_all_commits\<close> and an
  aggregator result \<^verbatim>\<open>{totalPublicCommits: A, totalPrivateCommits: B}\<close>,
  \<^verbatim>\<open>totalCommits\<close> is \<open>A\<close>, and \<open>A + B\<close> with \<^verbatim>\<open>count_private\<close>: the aggregate
  replaces \<open>P\<close> and \<open>R\<close>.
\<close>

theorem fetchStats_totalCommits_flags:
  assumes "uname \<noteq> []" and "primary_user e uname = Some u"
  shows "(\<exists>s. fst (fetchStats e (Some uname) False False) = Inr s \<and>
              totalCommits s = Num (totalCommitContributions u)) \<and>
         (\<exists>s. fst (fetchStats e (Some uname) True False) = Inr s \<and>
              totalCommits s =
                Num (totalCommitContributions u + restrictedContributionsCount u)) \<and>
         (\<forall>A B. fst (totalCommitsFetcher e uname (contributionYears u)) =
                  CommitAggregate A B \<longrightarrow>
            (\<exists>s. fst (fetchStats e (Some uname) False True) = Inr s \<and>
                 totalCommits s = Num A) \<and>
            (\<exists>s. fst (fetchStats e (Some uname) True True) = Inr s \<and>
                 totalCommits s = Num (A + B)))"
proof -
  let ?tr = "[Request_fetcher fetcher_repositories \<lparr>login = uname, from_time = None\<rparr>]"
  have run: "fetchStats e (Some uname) cp ia = assemble e uname u cp ia ?tr" for cp ia
    using assms by (rule fetchStats_assemble)
  have ret: "\<exists>s. fst (fetchStats e (Some uname) cp ia) = Inr s" for cp ia
    using assemble_returns [of e uname u cp ia ?tr] by (simp add: run)
  have primary: "fst (fetchStats e (Some uname) cp False) = Inr s \<Longrightarrow>
      totalCommits s =
        (if cp then Num (totalCommitContributions u + restrictedContributionsCount u)
         else Num (totalCommitContributions u))" for cp s
    using assemble_totalCommits_primary [of e uname u cp ?tr s] by (simp add: run)
  have all: "fst (fetchStats e (Some uname) cp True) = Inr s \<Longrightarrow>
      fst (totalCommitsFetcher e uname (contributionYears u)) = CommitAggregate A B \<Longrightarrow>
      totalCommits s = (if cp then Num (A + B) else Num A)" for cp s A B
    using assemble_totalCommits_all [of e uname u cp ?tr s] by (simp add: run)
  have c1: "\<exists>s. fst (fetchStats e (Some uname) False False) = Inr s \<and>
              totalCommits s = Num (totalCommitContributions u)"
    using ret [of False False] primary [of False] by auto
  have c2: "\<exists>s. fst (fetchStats e (Some uname) True False) = Inr s \<and>
              totalCommits s =
                Num (totalCommitContributions u + restrictedContributionsCount u)"
    using ret [of True False] primary [of True] by auto
  have c3: "\<exists>s. fst (fetchStats e (Some uname) False True) = Inr s \<and> totalCommits s = Num A"
    if "fst (totalCommitsFetcher e uname (contributionYears u)) = CommitAggregate A B" for A B
    using ret [of False True] all [of False _ A B] that by auto
  have c4: "\<exists>s. fst (fetchStats e (Some uname) True True) = Inr s \<and>
      totalCommits s = Num (A + B)"
    if "fst (totalCommitsFetcher e uname (contributionYears u)) = CommitAggregate A B" for A B
    using ret [of True True] all [of True _ A B] that by auto
  from c1 c2 c3 c4 show ?thesis by blast
qed

theorem fetchStats_totalCommits_flags_witness:
  "''octocat'' \<noteq> [] \<and> primary_user sample_env ''octocat'' = Some sample_user \<and>
   totalCommitContributions sample_user = 10 \<and>
   restrictedContributionsCount sample_user = 5 \<and>
   fst (totalCommitsFetcher sample_env ''octocat'' (contributionYears sample_user)) =
     CommitAggregate 100 20 \<and>
   (\<exists>s. fst (fetchStats sample_env (Some ''octocat'') False False) = Inr s \<and>
        totalCommits s = Num 10) \<and>
   (\<exists>s. fst (fetchStats sample_env (Some ''octocat'') True False) = Inr s \<and>
        totalCommits s = Num 15) \<and>
   (\<exists>s. fst (fetchStats sample_env (Some ''octocat'') False True) = Inr s \<and>
        totalCommits s = Num 100) \<and>
   (\<exists>s. fst (fetchStats sample_env (Some ''octocat'') True True) = Inr s \<and>
        totalCommits s = Num 120)"
proof -
  have n: "''octocat'' \<noteq> []"
    by simp
  have p: "primary_user sample_env ''octocat'' = Some sample_user"
    by (rule sample_primary_user)
  have c: "totalCommitContributions sample_user = 10"
    "restrictedContributionsCount sample_user = 5"
    by (simp_all add: sample_user_def)
  have a: "fst (totalCommitsFetcher sample_env ''octocat'' (contributionYears sample_user)) =
     CommitAggregate 100 20"
    by code_simp
  show ?thesis
    using fetchStats_totalCommits_flags [OF n p] n p c a by simp
qed

text \<open>
  C3. When the handle is well formed and the query of one of the periods fails (its
  promise is rejected, or the response lacks the path to the counts so that the callback
  throws), the aggregator returns exactly
  \<^verbatim>\<open>{totalPublicCommits: 0, totalPrivateCommits: 0}\<close>, whatever the other periods
  answered. By \<open>settles_outcome\<close> this holds in every order of arrival.
\<close>

theorem totalCommitsFetcher_all_or_nothing:
  assumes "githubUsernameRegex_test e username"
    and "year \<in> set years"
    and "year_failed (retryer_fetchYearCommits e (year_variables username year))"
  shows "fst (totalCommitsFetcher e username years) = CommitAggregate 0 0"
proof -
  have "retryer_fetchYearCommits e (year_variables username year)
          \<in> set (responses e username years)"
    using assms(2) by (simp add: responses_def)
  with assms(3) have "\<exists>r \<in> set (responses e username years). year_failed r"
    by blast
  with assms(1) show ?thesis
    by (rule totalCommitsFetcher_failed)
qed

theorem totalCommitsFetcher_all_or_nothing_witness:
  "githubUsernameRegex_test sample_env ''octocat'' \<and>
   2021 \<in> set [2019, 2021, 2020 :: int] \<and>
   year_failed (retryer_fetchYearCommits sample_env (year_variables ''octocat'' 2021)) \<and>
   \<not> year_failed (retryer_fetchYearCommits sample_env (year_variables ''octocat'' 2019)) \<and>
   \<not> year_failed (retryer_fetchYearCommits sample_env (year_variables ''octocat'' 2020)) \<and>
   fst (totalCommitsFetcher sample_env ''octocat'' [2019, 2021, 2020]) = CommitAggregate 0 0"
proof -
  have v: "githubUsernameRegex_test sample_env ''octocat''"
    by (rule sample_handle)
  have m: "2021 \<in> set [2019, 2021, 2020 :: int]"
    by simp
  have f: "year_failed (retryer_fetchYearCommits sample_env (year_variables ''octocat'' 2021))"
    by code_simp
  have ok:
    "\<not> year_failed (retryer_fetchYearCommits sample_env (year_variables ''octocat'' 2019))"
    "\<not> year_failed (retryer_fetchYearCommits sample_env (year_variables ''octocat'' 2020))"
    by code_simp+
  show ?thesis
    using totalCommitsFetcher_all_or_nothing [OF v m f] v m f ok by simp
qed

text \<open>
  C4. When the response to the primary query carries a non-empty \<^verbatim>\<open>errors\<close>
  array, \<^verbatim>\<open>fetchStats\<close> throws a \<^verbatim>\<open>CustomError\<close> of type
  \<^verbatim>\<open>USER_NOT_FOUND\<close> whose message is the message of the first error, or
  \<^verbatim>\<open>Could not fetch user\<close> when that message is missing or empty. No record is
  returned, and the run consists of the primary request and the logging of the errors:
  the aggregator is not called and no year query is issued.
\<close>

theorem fetchStats_upstream_error:
  assumes "uname \<noteq> []"
    and "retryer_fetcher e \<lparr>login = uname, from_time = None\<rparr> = Resolved res"
    and "errors res = Some (err # errs)"
  shows "fetchStats e (Some uname) count_private include_all_commits =
           (Inl (CustomError
                   (case message err of
                      None \<Rightarrow> ''Could not fetch user''
                    | Some m \<Rightarrow> if m = [] then ''Could not fetch user'' else m)
                   USER_NOT_FOUND),
            [Request_fetcher fetcher_repositories \<lparr>login = uname, from_time = None\<rparr>,
             Logger_error (err # errs)])"
proof -
  have "or_else (message err) ''Could not fetch user'' =
      (case message err of
         None \<Rightarrow> ''Could not fetch user''
       | Some m \<Rightarrow> if m = [] then ''Could not fetch user'' else m)"
    by (cases "message err") simp_all
  then show ?thesis
    using assms by (simp add: fetchStats_def Let_def)
qed

theorem fetchStats_upstream_error_witness:
  "''ghost'' \<noteq> [] \<and>
   retryer_fetcher sample_env \<lparr>login = ''ghost'', from_time = None\<rparr> =
     Resolved \<lparr>data = None,
               errors = Some [\<lparr>message = Some ''Could not resolve to a User''\<rparr>]\<rparr> \<and>
   fetchStats sample_env (Some ''ghost'') True True =
     (Inl (CustomError ''Could not resolve to a User'' USER_NOT_FOUND),
      [Request_fetcher fetcher_repositories \<lparr>login = ''ghost'', from_time = None\<rparr>,
       Logger_error [\<lparr>message = Some ''Could not resolve to a User''\<rparr>]])"
proof -
  let ?res = "\<lparr>data = None,
                errors = Some [\<lparr>message = Some ''Could not resolve to a User''\<rparr>]\<rparr>
                :: user_info response"
  have n: "''ghost'' \<noteq> []"
    by simp
  have r: "retryer_fetcher sample_env \<lparr>login = ''ghost'', from_time = None\<rparr> = Resolved ?res"
    by (simp add: sample_env_def sample_primary_def)
  have s: "errors ?res = Some [\<lparr>message = Some ''Could not resolve to a User''\<rparr>]"
    by simp
  show ?thesis
    using fetchStats_upstream_error [OF n r s, of True True] n r by simp
qed

text \<open>
  C5. When the account identifier is absent or the empty string, \<^verbatim>\<open>fetchStats\<close>
  throws a \<^verbatim>\<open>MissingParamError\<close> that names \<^verbatim>\<open>username\<close>, and the run is empty:
  no request is issued.
\<close>

theorem fetchStats_missing_username:
  "fetchStats e None count_private include_all_commits =
     (Inl (MissingParamError [''username'']), []) \<and>
   fetchStats e (Some []) count_private include_all_commits =
     (Inl (MissingParamError [''username'']), [])"
  by (simp add: fetchStats_def)

text \<open>
  C6. For every account identifier, every list of period identifiers and every
  permutation of that list, the aggregator returns the same value, hence the same
  \<^verbatim>\<open>totalPublicCommits\<close> and \<^verbatim>\<open>totalPrivateCommits\<close>, as for the list itself;
  and when requests are issued, the value is the same in whatever order their responses
  arrive.
\<close>

theorem totalCommitsFetcher_order_independent:
  assumes "mset years' = mset years"
  shows "fst (totalCommitsFetcher e username years') =
           fst (totalCommitsFetcher e username years) \<and>
         (\<forall>r. githubUsernameRegex_test e username \<and>
               settles (responses e username years') (0, 0) r \<longrightarrow>
               fst (totalCommitsFetcher e username years) =
                 (case r of
                    Inr (pub, priv) \<Rightarrow> CommitAggregate pub priv
                  | Inl err \<Rightarrow> CommitAggregate 0 0))"
proof -
  have same: "fst (totalCommitsFetcher e username years') =
      fst (totalCommitsFetcher e username years)"
  proof (cases "githubUsernameRegex_test e username")
    case False
    then show ?thesis by (simp add: totalCommitsFetcher_invalid)
  next
    case valid: True
    have m: "mset (responses e username years') = mset (responses e username years)"
      using assms by (rule mset_responses)
    then have s: "set (responses e username years') = set (responses e username years)"
      by (rule mset_eq_setD)
    show ?thesis
    proof (cases "\<exists>r \<in> set (responses e username years). year_failed r")
      case True
      then show ?thesis
        using valid s by (simp add: totalCommitsFetcher_failed)
    next
      case False
      then have "\<forall>r \<in> set (responses e username years). \<not> year_failed r"
        and "\<forall>r \<in> set (responses e username years'). \<not> year_failed r"
        using s by simp_all
      then show ?thesis
        using valid sum_list_mset_cong [OF m]
        by (simp add: totalCommitsFetcher_sum)
    qed
  qed
  have "fst (totalCommitsFetcher e username years) =
      (case r of Inr (pub, priv) \<Rightarrow> CommitAggregate pub priv
               | Inl err \<Rightarrow> CommitAggregate 0 0)"
    if "githubUsernameRegex_test e username"
      and "settles (responses e username years') (0, 0) r" for r
    using totalCommitsFetcher_any_arrival [OF that] same by simp
  with same show ?thesis by blast
qed

theorem totalCommitsFetcher_order_independent_witness:
  "mset [2020, 2019] = mset [2019, 2020 :: int] \<and>
   githubUsernameRegex_test sample_env ''octocat'' \<and>
   settles (responses sample_env ''octocat'' [2020, 2019]) (0, 0) (Inr (100, 20)) \<and>
   fst (totalCommitsFetcher sample_env ''octocat'' [2020, 2019]) = CommitAggregate 100 20 \<and>
   fst (totalCommitsFetcher sample_env ''octocat'' [2019, 2020]) = CommitAggregate 100 20"
proof -
  have p: "mset [2020, 2019] = mset [2019, 2020 :: int]"
    by simp
  note v = sample_handle and a = sample_arrival
  from totalCommitsFetcher_order_independent [OF p, of sample_env "''octocat''"]
  have same: "fst (totalCommitsFetcher sample_env ''octocat'' [2020, 2019]) =
      fst (totalCommitsFetcher sample_env ''octocat'' [2019, 2020])"
    and any: "githubUsernameRegex_test sample_env ''octocat'' \<and>
        settles (responses sample_env ''octocat'' [2020, 2019]) (0, 0) r \<longrightarrow>
      fst (totalCommitsFetcher sample_env ''octocat'' [2019, 2020]) =
        (case r of Inr (pub, priv) \<Rightarrow> CommitAggregate pub priv
                 | Inl err \<Rightarrow> CommitAggregate 0 0)" for r
    by blast+
  from any [of "Inr (100, 20)"] v a
  have "fst (totalCommitsFetcher sample_env ''octocat'' [2019, 2020]) = CommitAggregate 100 20"
    by simp
  with same p v a show ?thesis by simp
qed

text \<open>
  C7. In every run of \<^verbatim>\<open>fetchStats\<close> that returns a record, \<^verbatim>\<open>totalStars\<close> is the
  sum of the stargazer counts of the repository nodes in the response to the primary
  query, and that query is issued once, asking for the first 100 repositories that the
  account owns, by stargazers in descending order: a repository outside that page adds
  nothing. For the counts 5, 0 and 12 the total is 17.
\<close>

theorem fetchStats_totalStars:
  assumes "fetchStats e username count_private include_all_commits = (Inr s, evs)"
  shows "\<exists>uname u. username = Some uname \<and> primary_user e uname = Some u \<and>
           totalStars s = sum_list (map stargazers_totalCount (repositories_nodes u)) \<and>
           filter is_primary_request evs =
             [Request_fetcher
                \<lparr>first = 100, ownerAffiliations = ''OWNER'',
                 orderBy_direction = ''DESC'', orderBy_field = ''STARGAZERS''\<rparr>
                \<lparr>login = uname, from_time = None\<rparr>]"
proof -
  let ?cp = count_private and ?ia = include_all_commits
  have "fst (fetchStats e username ?cp ?ia) = Inr s"
    using assms by simp
  then obtain uname u where
    uname: "username = Some uname" "uname \<noteq> []" and u: "primary_user e uname = Some u"
    using fetchStats_returns by blast
  let ?tr = "[Request_fetcher fetcher_repositories \<lparr>login = uname, from_time = None\<rparr>]"
  have run: "assemble e uname u ?cp ?ia ?tr = (Inr s, evs)"
    using assms uname u fetchStats_assemble [of uname e u ?cp ?ia] by simp
  then have "fst (assemble e uname u ?cp ?ia ?tr) = Inr s"
    by simp
  then have stars: "totalStars s = sum_list (map stargazers_totalCount (repositories_nodes u))"
    by (rule assemble_totalStars)
  have "evs = snd (assemble e uname u ?cp ?ia ?tr)"
    using run by simp
  then have "filter is_primary_request evs = ?tr"
    by (simp add: assemble_events totalCommitsFetcher_requests)
  then show ?thesis
    using uname(1) u stars by (simp add: fetcher_repositories_def)
qed

theorem fetchStats_totalStars_witness:
  "\<exists>s evs. fetchStats sample_env (Some ''octocat'') False True = (Inr s, evs) \<and>
     primary_user sample_env ''octocat'' = Some sample_user \<and>
     map stargazers_totalCount (repositories_nodes sample_user) = [5, 0, 12] \<and>
     totalStars s = 17 \<and>
     filter is_primary_request evs =
       [Request_fetcher
          \<lparr>first = 100, ownerAffiliations = ''OWNER'',
           orderBy_direction = ''DESC'', orderBy_field = ''STARGAZERS''\<rparr>
          \<lparr>login = ''octocat'', from_time = None\<rparr>]"
proof -
  let ?s = "\<lparr>stats_name = ''octocat'', totalPRs = 6, totalCommits = Num 100,
             totalIssues = 10, totalStars = 17, contributedTo = 4, rank = Num 100\<rparr>"
  let ?evs = "[Request_fetcher fetcher_repositories \<lparr>login = ''octocat'', from_time = None\<rparr>,
     Call_totalCommitsFetcher ''octocat'' [2020, 2019],
     Request_fetchYearCommits
       \<lparr>login = ''octocat'', from_time = Some ''2020-01-01T00:00:00.000Z''\<rparr>,
     Request_fetchYearCommits
       \<lparr>login = ''octocat'', from_time = Some ''2019-01-01T00:00:00.000Z''\<rparr>]"
  have run: "fetchStats sample_env (Some ''octocat'') False True = (Inr ?s, ?evs)"
    by code_simp
  have nodes: "map stargazers_totalCount (repositories_nodes sample_user) = [5, 0, 12]"
    by (simp add: sample_user_def)
  from fetchStats_totalStars [OF run] sample_primary_user nodes
  have "totalStars ?s = 17 \<and>
     filter is_primary_request ?evs =
       [Request_fetcher
          \<lparr>first = 100, ownerAffiliations = ''OWNER'',
           orderBy_direction = ''DESC'', orderBy_field = ''STARGAZERS''\<rparr>
          \<lparr>login = ''octocat'', from_time = None\<rparr>]"
    by auto
  with run sample_primary_user nodes
  have "fetchStats sample_env (Some ''octocat'') False True = (Inr ?s, ?evs) \<and>
     primary_user sample_env ''octocat'' = Some sample_user \<and>
     map stargazers_totalCount (repositories_nodes sample_user) = [5, 0, 12] \<and>
     totalStars ?s = 17 \<and>
     filter is_primary_request ?evs =
       [Request_fetcher
          \<lparr>first = 100, ownerAffiliations = ''OWNER'',
           orderBy_direction = ''DESC'', orderBy_field = ''STARGAZERS''\<rparr>
          \<lparr>login = ''octocat'', from_time = None\<rparr>]"
    by simp
  then show ?thesis
    by - (rule exI, rule exI, assumption)
qed

text \<open>
  C8. In every run of \<^verbatim>\<open>fetchStats\<close> that returns a record, \<^verbatim>\<open>totalIssues\<close> is
  the open issue count plus the closed issue count of the response to the primary
  query (3 and 7 give 10), whatever the flags are and whatever the year queries answer.
\<close>

theorem fetchStats_totalIssues:
  assumes "fst (fetchStats e username count_private include_all_commits) = Inr s"
  shows "\<exists>uname u. username = Some uname \<and> primary_user e uname = Some u \<and>
           totalIssues s = openIssues_totalCount u + closedIssues_totalCount u"
proof -
  obtain uname u where
    uname: "username = Some uname" "uname \<noteq> []" and u: "primary_user e uname = Some u"
    using assms fetchStats_returns by blast
  then have "fst (assemble e uname u count_private include_all_commits
      [Request_fetcher fetcher_repositories \<lparr>login = uname, from_time = None\<rparr>]) = Inr s"
    using assms fetchStats_assemble [of uname e u count_private include_all_commits] by simp
  then have "totalIssues s = openIssues_totalCount u + closedIssues_totalCount u"
    by (rule assemble_totalIssues)
  with uname(1) u show ?thesis by simp
qed

theorem fetchStats_totalIssues_witness:
  "\<exists>s. fst (fetchStats sample_env (Some ''octocat'') True True) = Inr s \<and>
     primary_user sample_env ''octocat'' = Some sample_user \<and>
     openIssues_totalCount sample_user = 3 \<and> closedIssues_totalCount sample_user = 7 \<and>
     totalIssues s = 10"
proof -
  let ?s = "\<lparr>stats_name = ''octocat'', totalPRs = 6, totalCommits = Num 120,
             totalIssues = 10, totalStars = 17, contributedTo = 4, rank = Num 120\<rparr>"
  have run: "fst (fetchStats sample_env (Some ''octocat'') True True) = Inr ?s"
    by code_simp
  have c: "openIssues_totalCount sample_user = 3" "closedIssues_totalCount sample_user = 7"
    by (simp_all add: sample_user_def)
  from fetchStats_totalIssues [OF run] sample_primary_user c
  have "totalIssues ?s = 10"
    by auto
  with run sample_primary_user c
  have "fst (fetchStats sample_env (Some ''octocat'') True True) = Inr ?s \<and>
     primary_user sample_env ''octocat'' = Some sample_user \<and>
     openIssues_totalCount sample_user = 3 \<and> closedIssues_totalCount sample_user = 7 \<and>
     totalIssues ?s = 10"
    by simp
  then show ?thesis
    by - (rule exI, assumption)
qed

text \<open>
  C9. For a well-formed account identifier and an empty list of periods, the aggregator
  returns \<^verbatim>\<open>{totalPublicCommits: 0, totalPrivateCommits: 0}\<close> and its run is empty:
  it issues no request.
\<close>

theorem totalCommitsFetcher_no_years:
  assumes "githubUsernameRegex_test e username"
  shows "totalCommitsFetcher e username [] = (CommitAggregate 0 0, [])"
  using assms by (simp add: totalCommitsFetcher_def)

theorem totalCommitsFetcher_no_years_witness:
  "githubUsernameRegex_test sample_env ''octocat'' \<and>
   totalCommitsFetcher sample_env ''octocat'' [] = (CommitAggregate 0 0, [])"
  using totalCommitsFetcher_no_years [OF sample_handle] sample_handle by simp

text \<open>
  C10. For a username that is not empty but fails the test of the handle pattern, a run
  of \<^verbatim>\<open>fetchStats\<close> with \<^verbatim>\<open>include_all_commits\<close> that returns a record returns
  one whose \<^verbatim>\<open>totalCommits\<close> is \<^verbatim>\<open>undefined\<close>, and \<^verbatim>\<open>NaN\<close> when
  \<^verbatim>\<open>count_private\<close> is set as well: the aggregator returned the number \<^verbatim>\<open>0\<close>,
  and destructuring it gives two \<^verbatim>\<open>undefined\<close> fields.
\<close>

theorem fetchStats_malformed_handle_totalCommits:
  assumes "\<not> githubUsernameRegex_test e uname"
    and "fst (fetchStats e (Some uname) count_private True) = Inr s"
  shows "totalCommits s = (if count_private then NaN else Undefined)"
proof -
  obtain u where uname: "uname \<noteq> []" and u: "primary_user e uname = Some u"
    using assms(2) fetchStats_returns by blast
  then have "fst (assemble e uname u count_private True
      [Request_fetcher fetcher_repositories \<lparr>login = uname, from_time = None\<rparr>]) = Inr s"
    using assms(2) fetchStats_assemble [of uname e u count_private True] by simp
  then have "totalCommits s =
       (let (pub, priv) = destructure (fst (totalCommitsFetcher e uname (contributionYears u)))
        in if count_private then js_add pub priv else pub)"
    by (rule assemble_totalCommits_all)
  then show ?thesis
    using assms(1) by (simp add: totalCommitsFetcher_invalid)
qed

theorem fetchStats_malformed_handle_totalCommits_witness:
  "''-bad'' \<noteq> [] \<and> \<not> githubUsernameRegex_test sample_env ''-bad'' \<and>
   fst (fetchStats sample_env (Some ''-bad'') False True) =
     Inr \<lparr>stats_name = ''octocat'', totalPRs = 6, totalCommits = Undefined,
          totalIssues = 10, totalStars = 17, contributedTo = 4, rank = Undefined\<rparr> \<and>
   fst (fetchStats sample_env (Some ''-bad'') True True) =
     Inr \<lparr>stats_name = ''octocat'', totalPRs = 6, totalCommits = NaN,
          totalIssues = 10, totalStars = 17, contributedTo = 4, rank = NaN\<rparr>"
proof -
  let ?s1 = "\<lparr>stats_name = ''octocat'', totalPRs = 6, totalCommits = Undefined,
          totalIssues = 10, totalStars = 17, contributedTo = 4, rank = Undefined\<rparr>"
  let ?s2 = "\<lparr>stats_name = ''octocat'', totalPRs = 6, totalCommits = NaN,
          totalIssues = 10, totalStars = 17, contributedTo = 4, rank = NaN\<rparr>"
  note v = sample_malformed_handle
  have s1: "fst (fetchStats sample_env (Some ''-bad'') False True) = Inr ?s1"
    by code_simp
  have s2: "fst (fetchStats sample_env (Some ''-bad'') True True) = Inr ?s2"
    by code_simp
  have "totalCommits ?s1 = Undefined" and "totalCommits ?s2 = NaN"
    using fetchStats_malformed_handle_totalCommits [OF v s1]
      fetchStats_malformed_handle_totalCommits [OF v s2] by simp_all
  with v s1 s2 show ?thesis by simp
qed

end
